theory Spec2Isabelle
  imports Complex_Main
begin

section \<open>JavaScript values\<close>

text \<open>
  The values that flow through \<^verbatim>\<open>src/index.ts\<close>: the results of \<^verbatim>\<open>JSON.parse\<close>,
  the object literals the handlers build, and \<^verbatim>\<open>undefined\<close> for an omitted optional
  argument. An object is the list of its own properties in insertion order. A number is
  a rational: every finite double is one (the sign of zero is not kept, and a literal
  too large for a double, which parses to \<^verbatim>\<open>Infinity\<close>, has no value here).
\<close>

datatype jsval =
    JSUndefined
  | JSNull
  | JSBool bool
  | JSNum rat
  | JSStr string
  | JSArr "jsval list"
  | JSObj "(string \<times> jsval) list"

text \<open>\<^verbatim>\<open>if (v)\<close>, \<^verbatim>\<open>!v\<close>, \<^verbatim>\<open>v || d\<close>: JavaScript's ToBoolean.\<close>

fun truthy :: "jsval \<Rightarrow> bool" where
  "truthy JSUndefined = False"
| "truthy JSNull = False"
| "truthy (JSBool b) = b"
| "truthy (JSNum r) = (r \<noteq> 0)"
| "truthy (JSStr s) = (s \<noteq> [])"
| "truthy (JSArr xs) = True"
| "truthy (JSObj kvs) = True"

text \<open>An optional argument as the value the handler reads: \<^verbatim>\<open>undefined\<close> when omitted.\<close>

definition opt_string :: "string option \<Rightarrow> jsval" where
  "opt_string a = (case a of None \<Rightarrow> JSUndefined | Some s \<Rightarrow> JSStr s)"

definition opt_array :: "jsval list option \<Rightarrow> jsval" where
  "opt_array a = (case a of None \<Rightarrow> JSUndefined | Some xs \<Rightarrow> JSArr xs)"

text \<open>\<^verbatim>\<open>a || d\<close> on an optional string.\<close>

definition or_else :: "string option \<Rightarrow> string \<Rightarrow> string" where
  "or_else a d = (case a of None \<Rightarrow> d | Some s \<Rightarrow> if s \<noteq> [] then s else d)"

section \<open>The runtime: URL, JSON.parse, number formatting, fetch\<close>

record request =
  req_method :: string
  req_url :: string
  req_query :: "(string \<times> string) list"
  req_headers :: "(string \<times> string) list"
  req_body :: "string option"

record response =
  res_status :: nat
  res_text :: string

text \<open>
  What the code calls and does not define. \<open>URL_valid\<close> tells whether \<^verbatim>\<open>new URL\<close>
  accepts a string; it throws a TypeError on one that is no absolute URL. \<open>uuid_valid\<close>
  is the format check of \<^verbatim>\<open>z.string().uuid()\<close>. \<open>JSON_parse\<close> is
  \<^verbatim>\<open>JSON.parse\<close>, \<open>None\<close> when it throws. \<open>number_format\<close> prints the numbers that are
  not plain decimal integers. \<open>fetch\<close> is the network: given the requests already sent
  and the new one, the response and its body text, or \<open>None\<close> when \<^verbatim>\<open>fetch\<close> or
  \<^verbatim>\<open>res.text()\<close> rejects.
\<close>

record runtime =
  URL_valid :: "string \<Rightarrow> bool"
  uuid_valid :: "string \<Rightarrow> bool"
  JSON_parse :: "string \<Rightarrow> jsval option"
  number_format :: "rat \<Rightarrow> string"
  fetch :: "request list \<Rightarrow> request \<Rightarrow> response option"

datatype error =
    NetworkError
  | TypeError
  | InvalidParams string

subsection \<open>Number.prototype.toString\<close>

fun digits :: "nat \<Rightarrow> string" where
  "digits n =
     (if n < 10 then [''0123456789'' ! n]
      else digits (n div 10) @ [''0123456789'' ! (n mod 10)])"

declare digits.simps [simp del]

definition int_decimal :: "int \<Rightarrow> string" where
  "int_decimal i = (if i < 0 then ''-'' @ digits (nat (- i)) else digits (nat i))"

definition is_integer :: "rat \<Rightarrow> bool" where
  "is_integer r = (rat_of_int \<lfloor>r\<rfloor> = r)"

text \<open>
  An integer below \<open>10^21\<close> in magnitude prints as its decimal digits; every other number
  (a fraction, exponent notation) is printed by the runtime.
\<close>

definition Number_toString :: "runtime \<Rightarrow> rat \<Rightarrow> string" where
  "Number_toString rt r =
     (if is_integer r \<and> \<bar>r\<bar> < 10 ^ 21 then int_decimal \<lfloor>r\<rfloor> else number_format rt r)"

subsection \<open>Template literals: ToString\<close>

fun join :: "string \<Rightarrow> string list \<Rightarrow> string" where
  "join sep [] = []"
| "join sep [x] = x"
| "join sep (x # y # ys) = x @ sep @ join sep (y # ys)"

fun ToString :: "runtime \<Rightarrow> jsval \<Rightarrow> string" where
  "ToString rt JSUndefined = ''undefined''"
| "ToString rt JSNull = ''null''"
| "ToString rt (JSBool b) = (if b then ''true'' else ''false'')"
| "ToString rt (JSNum r) = Number_toString rt r"
| "ToString rt (JSStr s) = s"
| "ToString rt (JSArr xs) =
     join '','' (map (\<lambda>x. if x = JSUndefined \<or> x = JSNull then [] else ToString rt x) xs)"
| "ToString rt (JSObj kvs) = ''[object Object]''"

subsection \<open>JSON.stringify\<close>

definition hex4 :: "nat \<Rightarrow> string" where
  "hex4 n = [''0123456789abcdef'' ! (n div 4096 mod 16), ''0123456789abcdef'' ! (n div 256 mod 16),
             ''0123456789abcdef'' ! (n div 16 mod 16), ''0123456789abcdef'' ! (n mod 16)]"

definition quote_char :: "char \<Rightarrow> string" where
  "quote_char c =
     (if c = CHR ''\"'' then [CHR 0x5C, CHR ''\"'']
      else if c = CHR 0x5C then [CHR 0x5C, CHR 0x5C]
      else if c = CHR 0x08 then [CHR 0x5C, CHR ''b'']
      else if c = CHR 0x09 then [CHR 0x5C, CHR ''t'']
      else if c = CHR 0x0A then [CHR 0x5C, CHR ''n'']
      else if c = CHR 0x0C then [CHR 0x5C, CHR ''f'']
      else if c = CHR 0x0D then [CHR 0x5C, CHR ''r'']
      else if (of_char c :: nat) < 32 then [CHR 0x5C, CHR ''u''] @ hex4 (of_char c)
      else [c])"

definition QuoteJSONString :: "string \<Rightarrow> string" where
  "QuoteJSONString s = [CHR ''\"''] @ concat (map quote_char s) @ [CHR ''\"'']"

text \<open>
  The brackets around the serialised elements or members: on one line when there is no
  gap, one element per line at the new indentation otherwise.
\<close>

definition json_wrap :: "string \<Rightarrow> string \<Rightarrow> string \<Rightarrow> string \<Rightarrow> string \<Rightarrow> string list \<Rightarrow> string" where
  "json_wrap l r gap stepback ind partial =
     (if partial = [] then l @ r
      else if gap = [] then l @ join '','' partial @ r
      else l @ ''\<newline>'' @ ind @ join ('','' @ ''\<newline>'' @ ind) partial @ ''\<newline>'' @ stepback @ r)"

text \<open>
  SerializeJSONProperty of ECMA-262, no replacer: \<open>None\<close> is its \<^verbatim>\<open>undefined\<close>. An
  array element that serialises to \<^verbatim>\<open>undefined\<close> is written \<^verbatim>\<open>null\<close>; an object
  property that does is left out.
\<close>

fun SerializeJSONProperty :: "runtime \<Rightarrow> string \<Rightarrow> string \<Rightarrow> jsval \<Rightarrow> string option" where
  "SerializeJSONProperty rt gap ind JSUndefined = None"
| "SerializeJSONProperty rt gap ind JSNull = Some ''null''"
| "SerializeJSONProperty rt gap ind (JSBool b) = Some (if b then ''true'' else ''false'')"
| "SerializeJSONProperty rt gap ind (JSNum r) = Some (Number_toString rt r)"
| "SerializeJSONProperty rt gap ind (JSStr s) = Some (QuoteJSONString s)"
| "SerializeJSONProperty rt gap ind (JSArr xs) =
     Some (json_wrap ''['' '']'' gap ind (ind @ gap)
       (map (\<lambda>x. case SerializeJSONProperty rt gap (ind @ gap) x of
                    None \<Rightarrow> ''null'' | Some s \<Rightarrow> s) xs))"
| "SerializeJSONProperty rt gap ind (JSObj kvs) =
     Some (json_wrap ''{'' ''}'' gap ind (ind @ gap)
       (concat (map (\<lambda>(k, v). case SerializeJSONProperty rt gap (ind @ gap) v of
                    None \<Rightarrow> []
                  | Some s \<Rightarrow> [QuoteJSONString k @ '':'' @ (if gap = [] then [] else '' '') @ s])
          kvs)))"

text \<open>\<^verbatim>\<open>JSON.stringify(v)\<close> is \<open>JSON_stringify rt [] v\<close>; \<^verbatim>\<open>JSON.stringify(v, null, 2)\<close> has a
  gap of two spaces.\<close>

definition JSON_stringify :: "runtime \<Rightarrow> string \<Rightarrow> jsval \<Rightarrow> string option" where
  "JSON_stringify rt gap v = SerializeJSONProperty rt gap [] v"

section \<open>Configuration\<close>

record config =
  API_URL :: string
  BOT_TOKEN :: string

text \<open>\<^verbatim>\<open>process.env.SOLAFON_API_URL || "https://api.solafon.com"\<close> and
  \<^verbatim>\<open>process.env.SOLAFON_BOT_TOKEN || ""\<close>, read once at start.\<close>

definition load_config :: "(string \<rightharpoonup> string) \<Rightarrow> config" where
  "load_config env =
     \<lparr>API_URL = or_else (env ''SOLAFON_API_URL'') ''https://api.solafon.com'',
      BOT_TOKEN = or_else (env ''SOLAFON_BOT_TOKEN'') ''''\<rparr>"

section \<open>The HTTP helper\<close>

text \<open>\<^verbatim>\<open>url.searchParams.set(k, v)\<close>: the first pair named \<open>k\<close> takes the value and the
  others go; with no such pair, the pair is appended.\<close>

fun searchParams_set :: "string \<Rightarrow> string \<Rightarrow> (string \<times> string) list \<Rightarrow> (string \<times> string) list" where
  "searchParams_set k v [] = [(k, v)]"
| "searchParams_set k v ((k', v') # ps) =
     (if k' = k then (k, v) # filter (\<lambda>p. fst p \<noteq> k) ps
      else (k', v') # searchParams_set k v ps)"

text \<open>The loop over \<^verbatim>\<open>Object.entries(query)\<close>: a value is set only when it is truthy.\<close>

fun query_loop :: "(string \<times> string) list \<Rightarrow> (string \<times> string) list \<Rightarrow> (string \<times> string) list" where
  "query_loop [] ps = ps"
| "query_loop ((k, v) # es) ps =
     query_loop es (if truthy (JSStr v) then searchParams_set k v ps else ps)"

text \<open>
  The request \<^verbatim>\<open>apiCall\<close> hands to \<^verbatim>\<open>fetch\<close>. \<open>req_url\<close> is the string given to
  \<^verbatim>\<open>new URL\<close>, as it is given, and \<open>req_query\<close> the parameters the loop sets on the
  URL (the string itself is taken to carry no query part).
\<close>

definition apiCall_request ::
  "runtime \<Rightarrow> config \<Rightarrow> string \<Rightarrow> string \<Rightarrow> jsval \<Rightarrow> (string \<times> string) list option \<Rightarrow> request" where
  "apiCall_request rt cfg m path body query =
     \<lparr>req_method = m,
      req_url = API_URL cfg @ path,
      req_query = (case query of None \<Rightarrow> [] | Some q \<Rightarrow> query_loop q []),
      req_headers =
        (''Content-Type'', ''application/json'')
          # (if truthy (JSStr (BOT_TOKEN cfg)) then [(''X-Bot-Token'', BOT_TOKEN cfg)] else []),
      req_body = (if truthy body then JSON_stringify rt [] body else None)\<rparr>"

text \<open>
  A computation that awaits the network: given the requests sent before it starts, its
  result or the exception it throws, and the requests it sends itself, in order.
\<close>

type_synonym 'a io = "request list \<Rightarrow> (error + 'a) \<times> request list"

definition return_io :: "'a \<Rightarrow> 'a io" where
  "return_io x sent = (Inr x, [])"

definition throw_io :: "error \<Rightarrow> 'a io" where
  "throw_io e sent = (Inl e, [])"

definition await :: "'a io \<Rightarrow> ('a \<Rightarrow> 'b io) \<Rightarrow> 'b io" where
  "await m f sent =
     (case m sent of
        (Inl e, new) \<Rightarrow> (Inl e, new)
      | (Inr x, new) \<Rightarrow> (case f x (sent @ new) of (r, new') \<Rightarrow> (r, new @ new')))"

definition apiCall ::
  "runtime \<Rightarrow> config \<Rightarrow> string \<Rightarrow> string \<Rightarrow> jsval \<Rightarrow> (string \<times> string) list option \<Rightarrow> jsval io" where
  "apiCall rt cfg m path body query sent =
     (if \<not> URL_valid rt (API_URL cfg @ path) then (Inl TypeError, [])
      else
        let req = apiCall_request rt cfg m path body query in
        case fetch rt sent req of
          None \<Rightarrow> (Inl NetworkError, [req])
        | Some res \<Rightarrow>
            (case JSON_parse rt (res_text res) of
               Some v \<Rightarrow> (Inr v, [req])
             | None \<Rightarrow>
                 (Inr (JSObj [(''status'', JSNum (of_nat (res_status res))),
                              (''body'', JSStr (res_text res))]),
                  [req])))"

section \<open>The result envelope\<close>

record text_block =
  block_type :: string
  block_text :: "string option"

record envelope =
  content :: "text_block list"

definition ok :: "runtime \<Rightarrow> jsval \<Rightarrow> envelope" where
  "ok rt data = \<lparr>content = [\<lparr>block_type = ''text'', block_text = JSON_stringify rt ''  '' data\<rparr>]\<rparr>"

section \<open>Tools\<close>

datatype message_type = TypeText | TypeImage | TypeCarousel

fun message_type_str :: "message_type \<Rightarrow> string" where
  "message_type_str TypeText = ''text''"
| "message_type_str TypeImage = ''image''"
| "message_type_str TypeCarousel = ''carousel''"

text \<open>
  The arguments a handler receives, after the schema: an optional field is \<open>None\<close> when
  the caller left it out, a field with a default always has a value. Buttons and cards
  are the validated arrays, handed on as they are.
\<close>

record send_message_args =
  sm_conversationId :: string
  sm_type :: message_type
  sm_text :: "string option"
  sm_imageUrl :: "string option"
  sm_buttons :: "jsval list option"
  sm_cards :: "jsval list option"

record edit_message_args =
  em_messageId :: string
  em_type :: message_type
  em_text :: "string option"
  em_buttons :: "jsval list option"

record list_conversations_args =
  lc_limit :: rat
  lc_offset :: rat


record set_webhook_args =
  wh_url :: string
  wh_events :: "string list option"

record set_welcome_message_args =
  wm_text :: string
  wm_buttons :: "jsval list option"

record get_transaction_history_args =
  th_address :: string
  th_limit :: rat
  th_before :: "string option"

subsection \<open>Bot API\<close>


text \<open>The \<^verbatim>\<open>content\<close> object of \<^verbatim>\<open>send_message\<close>: \<^verbatim>\<open>{ type }\<close>, then one assignment
  for each argument that is truthy.\<close>

definition send_message_content :: "send_message_args \<Rightarrow> (string \<times> jsval) list" where
  "send_message_content args =
     [(''type'', JSStr (message_type_str (sm_type args)))]
     @ (if truthy (opt_string (sm_text args)) then [(''text'', opt_string (sm_text args))] else [])
     @ (if truthy (opt_string (sm_imageUrl args))
        then [(''imageUrl'', opt_string (sm_imageUrl args))] else [])
     @ (if truthy (opt_array (sm_buttons args))
        then [(''buttons'', opt_array (sm_buttons args))] else [])
     @ (if truthy (opt_array (sm_cards args)) then [(''cards'', opt_array (sm_cards args))] else [])"

definition send_message :: "runtime \<Rightarrow> config \<Rightarrow> send_message_args \<Rightarrow> envelope io" where
  "send_message rt cfg args =
     await (apiCall rt cfg ''POST'' ''/api/bot/messages''
              (JSObj [(''conversationId'', JSStr (sm_conversationId args)),
                      (''content'', JSObj (send_message_content args))]) None)
       (\<lambda>result. return_io (ok rt result))"

definition edit_message_content :: "edit_message_args \<Rightarrow> (string \<times> jsval) list" where
  "edit_message_content args =
     [(''type'', JSStr (message_type_str (em_type args)))]
     @ (if truthy (opt_string (em_text args)) then [(''text'', opt_string (em_text args))] else [])
     @ (if truthy (opt_array (em_buttons args))
        then [(''buttons'', opt_array (em_buttons args))] else [])"

definition edit_message :: "runtime \<Rightarrow> config \<Rightarrow> edit_message_args \<Rightarrow> envelope io" where
  "edit_message rt cfg args =
     await (apiCall rt cfg ''PATCH'' (''/api/bot/messages/'' @ em_messageId args)
              (JSObj [(''content'', JSObj (edit_message_content args))]) None)
       (\<lambda>result. return_io (ok rt result))"


definition list_conversations :: "runtime \<Rightarrow> config \<Rightarrow> list_conversations_args \<Rightarrow> envelope io" where
  "list_conversations rt cfg args =
     await (apiCall rt cfg ''GET'' ''/api/bot/conversations'' JSUndefined
              (Some [(''limit'', Number_toString rt (lc_limit args)),
                     (''offset'', Number_toString rt (lc_offset args))]))
       (\<lambda>result. return_io (ok rt result))"



text \<open>
  \<^verbatim>\<open>botInfo.id\<close>: reading a property of \<^verbatim>\<open>null\<close> or \<^verbatim>\<open>undefined\<close> throws a
  TypeError; an object has the property or not; no other value has an \<^verbatim>\<open>id\<close>.
\<close>

fun get_id :: "jsval \<Rightarrow> error + jsval" where
  "get_id JSUndefined = Inl TypeError"
| "get_id JSNull = Inl TypeError"
| "get_id (JSObj kvs) = Inr (case map_of kvs ''id'' of None \<Rightarrow> JSUndefined | Some v \<Rightarrow> v)"
| "get_id v = Inr JSUndefined"

definition set_webhook :: "runtime \<Rightarrow> config \<Rightarrow> set_webhook_args \<Rightarrow> envelope io" where
  "set_webhook rt cfg args =
     await (apiCall rt cfg ''GET'' ''/api/bot/me'' JSUndefined None)
       (\<lambda>botInfo.
          case get_id botInfo of
            Inl e \<Rightarrow> throw_io e
          | Inr appId \<Rightarrow>
              if \<not> truthy appId
              then return_io
                     (ok rt (JSObj [(''error'',
                        JSStr ''Could not determine app ID. Check your bot token.'')]))
              else await (apiCall rt cfg ''PUT''
                            (''/api/developer/apps/'' @ ToString rt appId @ ''/webhook'')
                            (JSObj [(''url'', JSStr (wh_url args)),
                                    (''events'',
                                     (case wh_events args of
                                        None \<Rightarrow> JSUndefined
                                      | Some es \<Rightarrow> JSArr (map JSStr es)))]) None)
                     (\<lambda>result. return_io (ok rt result)))"

definition set_welcome_message ::
  "runtime \<Rightarrow> config \<Rightarrow> set_welcome_message_args \<Rightarrow> envelope io" where
  "set_welcome_message rt cfg args =
     await (apiCall rt cfg ''GET'' ''/api/bot/me'' JSUndefined None)
       (\<lambda>botInfo.
          case get_id botInfo of
            Inl e \<Rightarrow> throw_io e
          | Inr appId \<Rightarrow>
              if \<not> truthy appId
              then return_io (ok rt (JSObj [(''error'', JSStr ''Could not determine app ID.'')]))
              else await (apiCall rt cfg ''PUT''
                            (''/api/developer/apps/'' @ ToString rt appId @ ''/welcome-message'')
                            (JSObj [(''content'',
                               JSObj ([(''type'', JSStr ''text''), (''text'', JSStr (wm_text args))]
                                 @ (if truthy (opt_array (wm_buttons args))
                                    then [(''buttons'', opt_array (wm_buttons args))]
                                    else [])))]) None)
                     (\<lambda>result. return_io (ok rt result)))"

subsection \<open>Wallet API\<close>



definition get_token_prices :: "runtime \<Rightarrow> config \<Rightarrow> string option \<Rightarrow> envelope io" where
  "get_token_prices rt cfg mints =
     await (apiCall rt cfg ''GET'' ''/api/wallet/prices'' JSUndefined
              (Some [(''mints'', or_else mints ''all'')]))
       (\<lambda>result. return_io (ok rt result))"

definition get_transaction_history ::
  "runtime \<Rightarrow> config \<Rightarrow> get_transaction_history_args \<Rightarrow> envelope io" where
  "get_transaction_history rt cfg args =
     await (apiCall rt cfg ''GET'' ''/api/wallet/transactions'' JSUndefined
              (Some ([(''address'', th_address args),
                      (''limit'', Number_toString rt (th_limit args))]
                     @ (case th_before args of
                          None \<Rightarrow> []
                        | Some b \<Rightarrow> if truthy (JSStr b) then [(''before'', b)] else []))))
       (\<lambda>result. return_io (ok rt result))"





subsection \<open>The registry\<close>



subsection \<open>Input schemas\<close>

text \<open>
  The schema checks of the two tools with a bounded \<^verbatim>\<open>limit\<close> and of the two that
  assemble a message. The caller's arguments are an object; a key it does not have reads
  as \<^verbatim>\<open>undefined\<close>, and a key the schema does not declare is not read: the parsed
  arguments have the declared fields only. A check returns the parsed value or the code
  of the first issue found.
\<close>

definition arg :: "(string \<times> jsval) list \<Rightarrow> string \<Rightarrow> jsval" where
  "arg raw k = (case map_of raw k of None \<Rightarrow> JSUndefined | Some v \<Rightarrow> v)"

definition and_then :: "string + 'a \<Rightarrow> ('a \<Rightarrow> string + 'b) \<Rightarrow> string + 'b" where
  "and_then r f = (case r of Inl issue \<Rightarrow> Inl issue | Inr x \<Rightarrow> f x)"

definition z_number :: "jsval \<Rightarrow> string + rat" where
  "z_number v = (case v of JSNum r \<Rightarrow> Inr r | _ \<Rightarrow> Inl ''invalid_type'')"

definition z_int :: "rat \<Rightarrow> string + rat" where
  "z_int r = (if is_integer r then Inr r else Inl ''invalid_type'')"

definition z_min :: "rat \<Rightarrow> rat \<Rightarrow> string + rat" where
  "z_min lo r = (if r < lo then Inl ''too_small'' else Inr r)"

definition z_max :: "rat \<Rightarrow> rat \<Rightarrow> string + rat" where
  "z_max hi r = (if hi < r then Inl ''too_big'' else Inr r)"

definition z_default :: "jsval \<Rightarrow> (jsval \<Rightarrow> string + 'a) \<Rightarrow> jsval \<Rightarrow> string + 'a" where
  "z_default d schema v = schema (if v = JSUndefined then d else v)"

definition z_string :: "jsval \<Rightarrow> string + string" where
  "z_string v = (case v of JSStr s \<Rightarrow> Inr s | _ \<Rightarrow> Inl ''invalid_type'')"

definition z_optional :: "(jsval \<Rightarrow> string + 'a) \<Rightarrow> jsval \<Rightarrow> string + 'a option" where
  "z_optional schema v = (if v = JSUndefined then Inr None else and_then (schema v) (\<lambda>x. Inr (Some x)))"

text \<open>\<^verbatim>\<open>z.string().uuid()\<close>, and \<^verbatim>\<open>z.string().url()\<close>, which tries \<^verbatim>\<open>new URL\<close>.\<close>

definition z_uuid :: "runtime \<Rightarrow> jsval \<Rightarrow> string + string" where
  "z_uuid rt v =
     and_then (z_string v) (\<lambda>s. if uuid_valid rt s then Inr s else Inl ''invalid_string'')"

definition z_url :: "runtime \<Rightarrow> jsval \<Rightarrow> string + string" where
  "z_url rt v =
     and_then (z_string v) (\<lambda>s. if URL_valid rt s then Inr s else Inl ''invalid_string'')"

text \<open>\<^verbatim>\<open>z.enum(["text", "image", "carousel"])\<close> and \<^verbatim>\<open>z.enum(["callback", "url", "webApp"])\<close>.\<close>

definition z_message_type :: "jsval \<Rightarrow> string + message_type" where
  "z_message_type v =
     (case v of
        JSStr s \<Rightarrow>
          if s = ''text'' then Inr TypeText
          else if s = ''image'' then Inr TypeImage
          else if s = ''carousel'' then Inr TypeCarousel
          else Inl ''invalid_enum_value''
      | _ \<Rightarrow> Inl ''invalid_type'')"

definition z_action :: "jsval \<Rightarrow> string + string" where
  "z_action v =
     (case v of
        JSStr s \<Rightarrow>
          if s = ''callback'' \<or> s = ''url'' \<or> s = ''webApp'' then Inr s
          else Inl ''invalid_enum_value''
      | _ \<Rightarrow> Inl ''invalid_type'')"

text \<open>\<^verbatim>\<open>z.array(element)\<close>.\<close>

fun z_all :: "(jsval \<Rightarrow> string + 'a) \<Rightarrow> jsval list \<Rightarrow> string + 'a list" where
  "z_all element [] = Inr []"
| "z_all element (x # xs) =
     and_then (element x) (\<lambda>y. and_then (z_all element xs) (\<lambda>ys. Inr (y # ys)))"

definition z_array :: "(jsval \<Rightarrow> string + 'a) \<Rightarrow> jsval \<Rightarrow> string + 'a list" where
  "z_array element v = (case v of JSArr xs \<Rightarrow> z_all element xs | _ \<Rightarrow> Inl ''invalid_type'')"

text \<open>
  The object of a button and of a card. The parsed object has the declared keys, in
  the order of the schema, an optional one only when the input has it.
\<close>

definition optional_member :: "string \<Rightarrow> string option \<Rightarrow> (string \<times> jsval) list" where
  "optional_member k x = (case x of None \<Rightarrow> [] | Some s \<Rightarrow> [(k, JSStr s)])"

definition z_button :: "jsval \<Rightarrow> string + jsval" where
  "z_button v =
     (case v of
        JSObj kvs \<Rightarrow>
          and_then (z_string (arg kvs ''id''))
            (\<lambda>i. and_then (z_string (arg kvs ''text''))
               (\<lambda>t. and_then (z_action (arg kvs ''action''))
                  (\<lambda>a. and_then (z_optional z_string (arg kvs ''payload''))
                     (\<lambda>p. and_then (z_optional z_string (arg kvs ''url''))
                        (\<lambda>u. Inr (JSObj ([(''id'', JSStr i), (''text'', JSStr t),
                                           (''action'', JSStr a)]
                                          @ optional_member ''payload'' p
                                          @ optional_member ''url'' u)))))))
      | _ \<Rightarrow> Inl ''invalid_type'')"

definition z_card :: "jsval \<Rightarrow> string + jsval" where
  "z_card v =
     (case v of
        JSObj kvs \<Rightarrow>
          and_then (z_string (arg kvs ''id''))
            (\<lambda>i. and_then (z_string (arg kvs ''title''))
               (\<lambda>t. and_then (z_optional z_string (arg kvs ''subtitle''))
                  (\<lambda>st. and_then (z_optional z_string (arg kvs ''imageUrl''))
                     (\<lambda>im. and_then (z_optional (z_array z_button) (arg kvs ''buttons''))
                        (\<lambda>bs. Inr (JSObj ([(''id'', JSStr i), (''title'', JSStr t)]
                                           @ optional_member ''subtitle'' st
                                           @ optional_member ''imageUrl'' im
                                           @ (case bs of
                                                None \<Rightarrow> []
                                              | Some b \<Rightarrow> [(''buttons'', JSArr b)]))))))))
      | _ \<Rightarrow> Inl ''invalid_type'')"

text \<open>The schema of \<^verbatim>\<open>send_message\<close>: \<^verbatim>\<open>conversationId\<close>, \<^verbatim>\<open>type\<close> with the default
  \<^verbatim>\<open>"text"\<close>, and the optional \<^verbatim>\<open>text\<close>, \<^verbatim>\<open>imageUrl\<close>, \<^verbatim>\<open>buttons\<close>, \<^verbatim>\<open>cards\<close>.\<close>

definition send_message_schema :: "runtime \<Rightarrow> (string \<times> jsval) list \<Rightarrow> string + send_message_args" where
  "send_message_schema rt raw =
     and_then (z_uuid rt (arg raw ''conversationId''))
       (\<lambda>c. and_then (z_default (JSStr ''text'') z_message_type (arg raw ''type''))
          (\<lambda>ty. and_then (z_optional z_string (arg raw ''text''))
             (\<lambda>t. and_then (z_optional (z_url rt) (arg raw ''imageUrl''))
                (\<lambda>im. and_then (z_optional (z_array z_button) (arg raw ''buttons''))
                   (\<lambda>bs. and_then (z_optional (z_array z_card) (arg raw ''cards''))
                      (\<lambda>cs. Inr \<lparr>sm_conversationId = c, sm_type = ty, sm_text = t,
                                  sm_imageUrl = im, sm_buttons = bs, sm_cards = cs\<rparr>))))))"

text \<open>The schema of \<^verbatim>\<open>edit_message\<close>: \<^verbatim>\<open>messageId\<close>, \<^verbatim>\<open>type\<close> with the default
  \<^verbatim>\<open>"text"\<close>, and the optional \<^verbatim>\<open>text\<close> and \<^verbatim>\<open>buttons\<close>.\<close>

definition edit_message_schema :: "runtime \<Rightarrow> (string \<times> jsval) list \<Rightarrow> string + edit_message_args" where
  "edit_message_schema rt raw =
     and_then (z_uuid rt (arg raw ''messageId''))
       (\<lambda>m. and_then (z_default (JSStr ''text'') z_message_type (arg raw ''type''))
          (\<lambda>ty. and_then (z_optional z_string (arg raw ''text''))
             (\<lambda>t. and_then (z_optional (z_array z_button) (arg raw ''buttons''))
                (\<lambda>bs. Inr \<lparr>em_messageId = m, em_type = ty, em_text = t, em_buttons = bs\<rparr>))))"

text \<open>\<^verbatim>\<open>z.number().int().min(lo).max(hi)\<close> and \<^verbatim>\<open>z.number().int().min(lo)\<close>.\<close>

definition int_between :: "rat \<Rightarrow> rat \<Rightarrow> jsval \<Rightarrow> string + rat" where
  "int_between lo hi v = and_then (and_then (and_then (z_number v) z_int) (z_min lo)) (z_max hi)"

definition int_from :: "rat \<Rightarrow> jsval \<Rightarrow> string + rat" where
  "int_from lo v = and_then (and_then (z_number v) z_int) (z_min lo)"

text \<open>\<^verbatim>\<open>limit: z.number().int().min(1).max(100).default(20)\<close>,
  \<^verbatim>\<open>offset: z.number().int().min(0).default(0)\<close>.\<close>

definition list_conversations_schema :: "(string \<times> jsval) list \<Rightarrow> string + list_conversations_args" where
  "list_conversations_schema raw =
     and_then
       (z_default (JSNum 20) (int_between 1 100) (arg raw ''limit''))
       (\<lambda>l. and_then (z_default (JSNum 0) (int_from 0) (arg raw ''offset''))
          (\<lambda>off. Inr \<lparr>lc_limit = l, lc_offset = off\<rparr>))"

text \<open>\<^verbatim>\<open>address: z.string()\<close>, \<^verbatim>\<open>limit: z.number().int().min(1).max(50).default(20)\<close>,
  \<^verbatim>\<open>before: z.string().optional()\<close>.\<close>

definition get_transaction_history_schema ::
  "(string \<times> jsval) list \<Rightarrow> string + get_transaction_history_args" where
  "get_transaction_history_schema raw =
     and_then (z_string (arg raw ''address''))
       (\<lambda>a. and_then
          (z_default (JSNum 20) (int_between 1 50) (arg raw ''limit''))
          (\<lambda>l. and_then (z_optional z_string (arg raw ''before''))
             (\<lambda>b. Inr \<lparr>th_address = a, th_limit = l, th_before = b\<rparr>)))"

text \<open>
  \<^verbatim>\<open>server.tool(name, description, schema, handler)\<close>: the arguments of a call are
  checked against the schema, and the handler runs on the parsed arguments only when
  the check passes.
\<close>

definition server_tool ::
  "((string \<times> jsval) list \<Rightarrow> string + 'a) \<Rightarrow> ('a \<Rightarrow> envelope io) \<Rightarrow> (string \<times> jsval) list \<Rightarrow> envelope io" where
  "server_tool schema handler raw =
     (case schema raw of
        Inl issue \<Rightarrow> throw_io (InvalidParams issue)
      | Inr args \<Rightarrow> handler args)"

definition send_message_tool :: "runtime \<Rightarrow> config \<Rightarrow> (string \<times> jsval) list \<Rightarrow> envelope io" where
  "send_message_tool rt cfg = server_tool (send_message_schema rt) (send_message rt cfg)"

definition edit_message_tool :: "runtime \<Rightarrow> config \<Rightarrow> (string \<times> jsval) list \<Rightarrow> envelope io" where
  "edit_message_tool rt cfg = server_tool (edit_message_schema rt) (edit_message rt cfg)"

definition list_conversations_tool :: "runtime \<Rightarrow> config \<Rightarrow> (string \<times> jsval) list \<Rightarrow> envelope io" where
  "list_conversations_tool rt cfg = server_tool list_conversations_schema (list_conversations rt cfg)"

definition get_transaction_history_tool ::
  "runtime \<Rightarrow> config \<Rightarrow> (string \<times> jsval) list \<Rightarrow> envelope io" where
  "get_transaction_history_tool rt cfg =
     server_tool get_transaction_history_schema (get_transaction_history rt cfg)"

section \<open>The words of the specification\<close>

text \<open>"Rejected before the handler runs": the call ends with the validation error and
  has sent nothing.\<close>

definition rejected :: "envelope io \<Rightarrow> request list \<Rightarrow> bool" where
  "rejected run sent =
     (case run sent of (Inl (InvalidParams issue), new) \<Rightarrow> new = [] | _ \<Rightarrow> False)"

text \<open>"A non-empty bot token was configured at process start."\<close>

definition token_configured :: "(string \<rightharpoonup> string) \<Rightarrow> bool" where
  "token_configured env = (case env ''SOLAFON_BOT_TOKEN'' of None \<Rightarrow> False | Some t \<Rightarrow> t \<noteq> [])"

text \<open>The base URL is one that \<^verbatim>\<open>new URL\<close> accepts with a path after it, as every
  absolute URL with a host is.\<close>

definition base_url_valid :: "runtime \<Rightarrow> config \<Rightarrow> bool" where
  "base_url_valid rt cfg = (\<forall>p. URL_valid rt (API_URL cfg @ ''/'' @ p))"

text \<open>"A response whose id field is absent or falsy."\<close>

definition id_absent_or_falsy :: "jsval \<Rightarrow> bool" where
  "id_absent_or_falsy botInfo =
     (case botInfo of
        JSObj kvs \<Rightarrow> (case map_of kvs ''id'' of None \<Rightarrow> True | Some v \<Rightarrow> \<not> truthy v)
      | _ \<Rightarrow> True)"

text \<open>"The argument was supplied and is truthy."\<close>

definition supplied_truthy :: "jsval option \<Rightarrow> bool" where
  "supplied_truthy a = (case a of None \<Rightarrow> False | Some v \<Rightarrow> truthy v)"

subsection \<open>The catalog\<close>

text \<open>A request as the catalog describes it: verb, address and query parameters.\<close>

definition request_line :: "request \<Rightarrow> string \<times> string \<times> (string \<times> string) list" where
  "request_line r = (req_method r, req_url r, req_query r)"

definition non_empty :: "(string \<times> string) list \<Rightarrow> (string \<times> string) list" where
  "non_empty q = filter (\<lambda>p. snd p \<noteq> []) q"






text \<open>The application identifier an identity lookup yields: the \<^verbatim>\<open>id\<close> of the object
  returned, when it is there and truthy, as it is written into a path.\<close>

definition lookup_id :: "runtime \<Rightarrow> error + jsval \<Rightarrow> string option" where
  "lookup_id rt looked =
     (case looked of
        Inr (JSObj kvs) \<Rightarrow>
          (case map_of kvs ''id'' of
             None \<Rightarrow> None
           | Some v \<Rightarrow> if truthy v then Some (ToString rt v) else None)
      | _ \<Rightarrow> None)"


section \<open>A runtime for examples\<close>

text \<open>
  A runtime to run the model on examples: \<open>example_parse\<close> agrees with \<^verbatim>\<open>JSON.parse\<close> on
  the bodies the examples use (three JSON texts and texts that are not JSON), a URL is
  accepted when it starts with \<^verbatim>\<open>https://\<close>, a UUID is five groups of 8, 4, 4, 4 and
  12 hexadecimal digits, and the server answers every request with the same response.
\<close>

definition example_parse :: "string \<Rightarrow> jsval option" where
  "example_parse s =
     (if s = ''null'' then Some JSNull
      else if s = ''{\"id\":\"app_1\"}'' then Some (JSObj [(''id'', JSStr ''app_1'')])
      else if s = ''{\"error\":\"unauthorized\"}''
        then Some (JSObj [(''error'', JSStr ''unauthorized'')])
      else None)"

definition example_uuid :: "string \<Rightarrow> bool" where
  "example_uuid s =
     (map (\<lambda>c. if c \<in> set ''0123456789abcdefABCDEF'' then CHR ''h'' else c) s
        = ''hhhhhhhh-hhhh-hhhh-hhhh-hhhhhhhhhhhh'')"

definition example_runtime :: "response option \<Rightarrow> runtime" where
  "example_runtime answer =
     \<lparr>URL_valid = (\<lambda>u. take 8 u = ''https://''), uuid_valid = example_uuid,
      JSON_parse = example_parse,
      number_format = (\<lambda>r. ''NaN''), fetch = (\<lambda>sent req. answer)\<rparr>"

definition example_config :: config where
  "example_config = load_config [''SOLAFON_BOT_TOKEN'' \<mapsto> ''secret'']"

section \<open>Facts of the example runtime\<close>

lemma example_runtime_sel [simp]:
  "URL_valid (example_runtime answer) u = (take 8 u = ''https://'')"
  "uuid_valid (example_runtime answer) = example_uuid"
  "JSON_parse (example_runtime answer) = example_parse"
  "fetch (example_runtime answer) sent req = answer"
  by (simp_all add: example_runtime_def)

lemma example_config_sel [simp]:
  "API_URL example_config = ''https://api.solafon.com''"
  "BOT_TOKEN example_config = ''secret''"
  by (simp_all add: example_config_def load_config_def or_else_def)



section \<open>Requests sent\<close>

lemma apiCall_snd:
  "snd (apiCall rt cfg m p b q sent)
     = (if URL_valid rt (API_URL cfg @ p) then [apiCall_request rt cfg m p b q] else [])"
  by (simp add: apiCall_def Let_def split: option.splits)

lemma apiCall_Inr: "fst (apiCall rt cfg m p b q sent) = Inr x \<Longrightarrow> URL_valid rt (API_URL cfg @ p)"
  by (simp add: apiCall_def split: if_splits)

lemma base_url_valid_path [simp]: "base_url_valid rt cfg \<Longrightarrow> URL_valid rt (API_URL cfg @ CHR ''/'' # p)"
  by (simp add: base_url_valid_def)

lemma await_apiCall:
  "await (apiCall rt cfg m p b q) f sent =
     (case fst (apiCall rt cfg m p b q sent) of
        Inl e \<Rightarrow> (Inl e, snd (apiCall rt cfg m p b q sent))
      | Inr x \<Rightarrow>
          (fst (f x (sent @ [apiCall_request rt cfg m p b q])),
           apiCall_request rt cfg m p b q # snd (f x (sent @ [apiCall_request rt cfg m p b q]))))"
proof (cases "fst (apiCall rt cfg m p b q sent)")
  case (Inl e)
  then show ?thesis
    by (cases "apiCall rt cfg m p b q sent") (simp add: await_def)
next
  case (Inr x)
  with apiCall_Inr have "snd (apiCall rt cfg m p b q sent) = [apiCall_request rt cfg m p b q]"
    by (simp add: apiCall_snd)
  with Inr show ?thesis
    by (cases "apiCall rt cfg m p b q sent") (simp add: await_def split: prod.splits)
qed

lemma single_call:
  "snd (await (apiCall rt cfg m p b q) (\<lambda>result. return_io (f result)) sent)
     = (if URL_valid rt (API_URL cfg @ p) then [apiCall_request rt cfg m p b q] else [])"
  using apiCall_Inr [of rt cfg m p b q sent]
  by (auto simp add: await_apiCall apiCall_snd return_io_def split: sum.splits)

lemma searchParams_set_fresh:
  "k \<notin> fst ` set ps \<Longrightarrow> searchParams_set k v ps = ps @ [(k, v)]"
  by (induction ps) auto

lemma query_loop_append:
  "distinct (map fst q) \<Longrightarrow> fst ` set q \<inter> fst ` set ps = {} \<Longrightarrow>
     query_loop q ps = ps @ non_empty q"
proof (induction q arbitrary: ps)
  case Nil
  then show ?case by (simp add: non_empty_def)
next
  case (Cons e q)
  obtain k v where e: "e = (k, v)" by (cases e)
  show ?case
  proof (cases "v = []")
    case True
    with Cons e show ?thesis by (simp add: non_empty_def)
  next
    case False
    from Cons.prems e have fresh: "k \<notin> fst ` set ps" by auto
    from Cons.prems e have "fst ` set q \<inter> fst ` set (ps @ [(k, v)]) = {}" by auto
    with Cons e False fresh show ?thesis
      by (simp add: non_empty_def searchParams_set_fresh)
  qed
qed

lemma query_loop_distinct: "distinct (map fst q) \<Longrightarrow> query_loop q [] = non_empty q"
  using query_loop_append [of q "[]"] by simp





lemma two_step_requests:
  "snd (await (apiCall rt cfg m p b q)
          (\<lambda>botInfo. case get_id botInfo of
               Inl e \<Rightarrow> throw_io e
             | Inr appId \<Rightarrow>
                 if \<not> truthy appId then return_io (early appId)
                 else await (apiCall rt cfg m' (p' appId) (b' appId) None)
                        (\<lambda>result. return_io (f result))) sent)
   = (if URL_valid rt (API_URL cfg @ p)
      then apiCall_request rt cfg m p b q
        # (case fst (apiCall rt cfg m p b q sent) of
             Inl e \<Rightarrow> []
           | Inr botInfo \<Rightarrow>
               (case get_id botInfo of
                  Inl e \<Rightarrow> []
                | Inr appId \<Rightarrow>
                    if truthy appId \<and> URL_valid rt (API_URL cfg @ p' appId)
                    then [apiCall_request rt cfg m' (p' appId) (b' appId) None]
                    else []))
      else [])"
  using apiCall_Inr [of rt cfg m p b q sent]
  by (auto simp add: await_apiCall [where f = "\<lambda>botInfo. case get_id botInfo of
               Inl e \<Rightarrow> throw_io e
             | Inr appId \<Rightarrow>
                 if \<not> truthy appId then return_io (early appId)
                 else await (apiCall rt cfg m' (p' appId) (b' appId) None)
                        (\<lambda>result. return_io (f result))"] single_call apiCall_snd
        throw_io_def return_io_def
      split: sum.splits)



section \<open>The HTTP gateway\<close>

text \<open>
  C7. The gateway sends the request it builds, or none when \<^verbatim>\<open>new URL\<close> throws. The
  request has the header \<^verbatim>\<open>Content-Type: application/json\<close>.
  It has the header \<^verbatim>\<open>X-Bot-Token\<close>, carrying the token, exactly when the environment
  held a non-empty \<^verbatim>\<open>SOLAFON_BOT_TOKEN\<close> at start; with no token the content type is
  its only header.
\<close>

theorem gateway_headers:
  "snd (apiCall rt (load_config env) m path body query sent)
     = (if URL_valid rt (API_URL (load_config env) @ path)
        then [apiCall_request rt (load_config env) m path body query] else [])
   \<and> req_headers (apiCall_request rt (load_config env) m path body query)
     = (''Content-Type'', ''application/json'')
         # (if token_configured env then [(''X-Bot-Token'', the (env ''SOLAFON_BOT_TOKEN''))] else [])
   \<and> (''X-Bot-Token'' \<in> fst ` set (req_headers (apiCall_request rt (load_config env) m path body query)))
     = token_configured env"
proof (intro conjI)
  show "snd (apiCall rt (load_config env) m path body query sent)
     = (if URL_valid rt (API_URL (load_config env) @ path)
        then [apiCall_request rt (load_config env) m path body query] else [])"
    by (rule apiCall_snd)
  show "req_headers (apiCall_request rt (load_config env) m path body query)
     = (''Content-Type'', ''application/json'')
         # (if token_configured env then [(''X-Bot-Token'', the (env ''SOLAFON_BOT_TOKEN''))] else [])"
    by (simp add: apiCall_request_def load_config_def or_else_def token_configured_def
        split: option.splits)
  show "(''X-Bot-Token'' \<in> fst ` set (req_headers (apiCall_request rt (load_config env) m path body query)))
     = token_configured env"
    by (simp add: apiCall_request_def load_config_def or_else_def token_configured_def
        split: option.splits)
qed

text \<open>
  C5. When the response arrives and its body is not JSON, the gateway returns the
  object \<^verbatim>\<open>{status, body}\<close> with the response's status code and raw text; when the body
  is JSON it returns the parsed value, whatever the status code.
\<close>

theorem apiCall_result:
  "URL_valid rt (API_URL cfg @ path) \<Longrightarrow>
   fetch rt sent (apiCall_request rt cfg m path body query) = Some res \<Longrightarrow>
     (JSON_parse rt (res_text res) = None \<longrightarrow>
        fst (apiCall rt cfg m path body query sent)
          = Inr (JSObj [(''status'', JSNum (of_nat (res_status res))),
                        (''body'', JSStr (res_text res))]))
     \<and> (\<forall>v. JSON_parse rt (res_text res) = Some v \<longrightarrow>
          fst (apiCall rt cfg m path body query sent) = Inr v)"
  by (simp add: apiCall_def Let_def)

text \<open>A 502 with an HTML body, and a 401 with a JSON body.\<close>

theorem apiCall_result_witness:
  "fst (apiCall (example_runtime (Some \<lparr>res_status = 502, res_text = ''<html>Bad Gateway</html>''\<rparr>))
          example_config ''GET'' ''/api/bot/me'' JSUndefined None [])
     = Inr (JSObj [(''status'', JSNum 502), (''body'', JSStr ''<html>Bad Gateway</html>'')])
   \<and> fst (apiCall (example_runtime (Some \<lparr>res_status = 401, res_text = ''{\"error\":\"unauthorized\"}''\<rparr>))
          example_config ''GET'' ''/api/bot/me'' JSUndefined None [])
     = Inr (JSObj [(''error'', JSStr ''unauthorized'')])"
  using apiCall_result [where rt = "example_runtime (Some \<lparr>res_status = 502, res_text = ''<html>Bad Gateway</html>''\<rparr>)"
          and sent = "[]" and cfg = example_config and m = "''GET''" and path = "''/api/bot/me''"
          and body = JSUndefined and query = None
          and res = "\<lparr>res_status = 502, res_text = ''<html>Bad Gateway</html>''\<rparr>"]
        apiCall_result [where rt = "example_runtime (Some \<lparr>res_status = 401, res_text = ''{\"error\":\"unauthorized\"}''\<rparr>)"
          and sent = "[]" and cfg = example_config and m = "''GET''" and path = "''/api/bot/me''"
          and body = JSUndefined and query = None
          and res = "\<lparr>res_status = 401, res_text = ''{\"error\":\"unauthorized\"}''\<rparr>"]
  by (simp add: example_parse_def)




section \<open>Message content\<close>

lemma send_message_content_keys:
  "map fst (send_message_content a) =
     ''type''
       # (if truthy (opt_string (sm_text a)) then [''text''] else [])
       @ (if truthy (opt_string (sm_imageUrl a)) then [''imageUrl''] else [])
       @ (if truthy (opt_array (sm_buttons a)) then [''buttons''] else [])
       @ (if truthy (opt_array (sm_cards a)) then [''cards''] else [])"
  by (simp add: send_message_content_def)

lemma edit_message_content_keys:
  "map fst (edit_message_content a) =
     ''type''
       # (if truthy (opt_string (em_text a)) then [''text''] else [])
       @ (if truthy (opt_array (em_buttons a)) then [''buttons''] else [])"
  by (simp add: edit_message_content_def)

lemma send_message_content_type:
  "map_of (send_message_content a) ''type'' = Some (JSStr (message_type_str (sm_type a)))"
  by (simp add: send_message_content_def)

lemma edit_message_content_type:
  "map_of (edit_message_content a) ''type'' = Some (JSStr (message_type_str (em_type a)))"
  by (simp add: edit_message_content_def)

text \<open>The content object is what the request carries.\<close>

lemma message_request_bodies:
  "map req_body (snd (send_message rt cfg sa sent))
     = (if URL_valid rt (API_URL cfg @ ''/api/bot/messages'')
        then [JSON_stringify rt []
                (JSObj [(''conversationId'', JSStr (sm_conversationId sa)),
                        (''content'', JSObj (send_message_content sa))])]
        else [])"
  "map req_body (snd (edit_message rt cfg ea sent))
     = (if URL_valid rt (API_URL cfg @ ''/api/bot/messages/'' @ em_messageId ea)
        then [JSON_stringify rt [] (JSObj [(''content'', JSObj (edit_message_content ea))])]
        else [])"
  by (simp_all add: send_message_def edit_message_def single_call apiCall_request_def)

text \<open>An optional argument that passes its check is truthy for the handler exactly
  when the caller supplied it and it is truthy.\<close>

lemma supplied_truthy_arg: "supplied_truthy (map_of raw k) = truthy (arg raw k)"
  by (simp add: supplied_truthy_def arg_def split: option.splits)

lemma optional_string_truthy:
  "z_optional z_string v = Inr x \<Longrightarrow> truthy (opt_string x) = truthy v"
  by (cases v) (auto simp add: z_optional_def z_string_def and_then_def opt_string_def)

lemma optional_url_truthy:
  "z_optional (z_url rt) v = Inr x \<Longrightarrow> truthy (opt_string x) = truthy v"
  by (cases v)
     (auto simp add: z_optional_def z_url_def z_string_def and_then_def opt_string_def
        split: if_splits)

lemma optional_array_truthy:
  "z_optional (z_array element) v = Inr x \<Longrightarrow> truthy (opt_array x) = truthy v"
  by (cases v)
     (auto simp add: z_optional_def z_array_def and_then_def opt_array_def split: sum.splits)

lemma send_message_schema_fields:
  assumes "send_message_schema rt raw = Inr a"
  shows "truthy (opt_string (sm_text a)) = truthy (arg raw ''text'')"
    and "truthy (opt_string (sm_imageUrl a)) = truthy (arg raw ''imageUrl'')"
    and "truthy (opt_array (sm_buttons a)) = truthy (arg raw ''buttons'')"
    and "truthy (opt_array (sm_cards a)) = truthy (arg raw ''cards'')"
proof -
  from assms obtain c ty t im bs cs where
    t: "z_optional z_string (arg raw ''text'') = Inr t" and
    im: "z_optional (z_url rt) (arg raw ''imageUrl'') = Inr im" and
    bs: "z_optional (z_array z_button) (arg raw ''buttons'') = Inr bs" and
    cs: "z_optional (z_array z_card) (arg raw ''cards'') = Inr cs" and
    a: "a = \<lparr>sm_conversationId = c, sm_type = ty, sm_text = t, sm_imageUrl = im,
             sm_buttons = bs, sm_cards = cs\<rparr>"
    unfolding send_message_schema_def and_then_def by (auto split: sum.splits)
  show "truthy (opt_string (sm_text a)) = truthy (arg raw ''text'')"
    using optional_string_truthy [OF t] a by simp
  show "truthy (opt_string (sm_imageUrl a)) = truthy (arg raw ''imageUrl'')"
    using optional_url_truthy [OF im] a by simp
  show "truthy (opt_array (sm_buttons a)) = truthy (arg raw ''buttons'')"
    using optional_array_truthy [OF bs] a by simp
  show "truthy (opt_array (sm_cards a)) = truthy (arg raw ''cards'')"
    using optional_array_truthy [OF cs] a by simp
qed

lemma edit_message_schema_fields:
  assumes "edit_message_schema rt raw = Inr a"
  shows "truthy (opt_string (em_text a)) = truthy (arg raw ''text'')"
    and "truthy (opt_array (em_buttons a)) = truthy (arg raw ''buttons'')"
proof -
  from assms obtain m ty t bs where
    t: "z_optional z_string (arg raw ''text'') = Inr t" and
    bs: "z_optional (z_array z_button) (arg raw ''buttons'') = Inr bs" and
    a: "a = \<lparr>em_messageId = m, em_type = ty, em_text = t, em_buttons = bs\<rparr>"
    unfolding edit_message_schema_def and_then_def by (auto split: sum.splits)
  show "truthy (opt_string (em_text a)) = truthy (arg raw ''text'')"
    using optional_string_truthy [OF t] a by simp
  show "truthy (opt_array (em_buttons a)) = truthy (arg raw ''buttons'')"
    using optional_array_truthy [OF bs] a by simp
qed

text \<open>
  C1, as amended. For arguments that pass the schema of \<^verbatim>\<open>send_message\<close>, the content
  object the handler assembles always has \<^verbatim>\<open>type\<close>, and has each of \<^verbatim>\<open>text\<close>,
  \<^verbatim>\<open>imageUrl\<close>, \<^verbatim>\<open>buttons\<close>, \<^verbatim>\<open>cards\<close> exactly when the caller supplied that
  argument and it is truthy. For \<^verbatim>\<open>edit_message\<close> it always has \<^verbatim>\<open>type\<close>, has \<^verbatim>\<open>text\<close>
  and \<^verbatim>\<open>buttons\<close> exactly when supplied and truthy, and never has \<^verbatim>\<open>imageUrl\<close> or
  \<^verbatim>\<open>cards\<close>, which its schema does not declare.
\<close>

theorem message_content_fields:
  "(send_message_schema rt raw = Inr sa \<longrightarrow>
      send_message_tool rt cfg raw = send_message rt cfg sa
      \<and> map_of (send_message_content sa) ''type'' = Some (JSStr (message_type_str (sm_type sa)))
      \<and> (''text'' \<in> fst ` set (send_message_content sa)) = supplied_truthy (map_of raw ''text'')
      \<and> (''imageUrl'' \<in> fst ` set (send_message_content sa))
          = supplied_truthy (map_of raw ''imageUrl'')
      \<and> (''buttons'' \<in> fst ` set (send_message_content sa))
          = supplied_truthy (map_of raw ''buttons'')
      \<and> (''cards'' \<in> fst ` set (send_message_content sa)) = supplied_truthy (map_of raw ''cards''))
   \<and> (edit_message_schema rt raw = Inr ea \<longrightarrow>
      edit_message_tool rt cfg raw = edit_message rt cfg ea
      \<and> map_of (edit_message_content ea) ''type'' = Some (JSStr (message_type_str (em_type ea)))
      \<and> (''text'' \<in> fst ` set (edit_message_content ea)) = supplied_truthy (map_of raw ''text'')
      \<and> (''buttons'' \<in> fst ` set (edit_message_content ea))
          = supplied_truthy (map_of raw ''buttons'')
      \<and> ''imageUrl'' \<notin> fst ` set (edit_message_content ea)
      \<and> ''cards'' \<notin> fst ` set (edit_message_content ea))"
proof (intro conjI impI)
  assume s: "send_message_schema rt raw = Inr sa"
  then show "send_message_tool rt cfg raw = send_message rt cfg sa"
    by (simp add: send_message_tool_def server_tool_def)
  show "map_of (send_message_content sa) ''type'' = Some (JSStr (message_type_str (sm_type sa)))"
    by (rule send_message_content_type)
  show "(''text'' \<in> fst ` set (send_message_content sa)) = supplied_truthy (map_of raw ''text'')"
    unfolding set_map [symmetric] send_message_content_keys
    by (simp add: send_message_schema_fields [OF s] supplied_truthy_arg)
  show "(''imageUrl'' \<in> fst ` set (send_message_content sa))
      = supplied_truthy (map_of raw ''imageUrl'')"
    unfolding set_map [symmetric] send_message_content_keys
    by (simp add: send_message_schema_fields [OF s] supplied_truthy_arg)
  show "(''buttons'' \<in> fst ` set (send_message_content sa))
      = supplied_truthy (map_of raw ''buttons'')"
    unfolding set_map [symmetric] send_message_content_keys
    by (simp add: send_message_schema_fields [OF s] supplied_truthy_arg)
  show "(''cards'' \<in> fst ` set (send_message_content sa)) = supplied_truthy (map_of raw ''cards'')"
    unfolding set_map [symmetric] send_message_content_keys
    by (simp add: send_message_schema_fields [OF s] supplied_truthy_arg)
next
  assume e: "edit_message_schema rt raw = Inr ea"
  then show "edit_message_tool rt cfg raw = edit_message rt cfg ea"
    by (simp add: edit_message_tool_def server_tool_def)
  show "map_of (edit_message_content ea) ''type'' = Some (JSStr (message_type_str (em_type ea)))"
    by (rule edit_message_content_type)
  show "(''text'' \<in> fst ` set (edit_message_content ea)) = supplied_truthy (map_of raw ''text'')"
    unfolding set_map [symmetric] edit_message_content_keys
    by (simp add: edit_message_schema_fields [OF e] supplied_truthy_arg)
  show "(''buttons'' \<in> fst ` set (edit_message_content ea))
      = supplied_truthy (map_of raw ''buttons'')"
    unfolding set_map [symmetric] edit_message_content_keys
    by (simp add: edit_message_schema_fields [OF e] supplied_truthy_arg)
  show "''imageUrl'' \<notin> fst ` set (edit_message_content ea)"
    unfolding set_map [symmetric] edit_message_content_keys by simp
  show "''cards'' \<notin> fst ` set (edit_message_content ea)"
    unfolding set_map [symmetric] edit_message_content_keys by simp
qed

lemma example_uuid_ones: "example_uuid ''11111111-1111-1111-1111-111111111111''"
  by (simp add: example_uuid_def)

text \<open>A text message with an empty \<^verbatim>\<open>imageUrl\<close> left out and an empty list of buttons,
  and an edit of the text.\<close>

theorem message_content_fields_witness:
  "send_message_schema (example_runtime None)
     [(''conversationId'', JSStr ''11111111-1111-1111-1111-111111111111''),
      (''text'', JSStr ''hi''), (''buttons'', JSArr [])]
     = Inr \<lparr>sm_conversationId = ''11111111-1111-1111-1111-111111111111'', sm_type = TypeText,
            sm_text = Some ''hi'', sm_imageUrl = None, sm_buttons = Some [], sm_cards = None\<rparr>
   \<and> send_message_content
     \<lparr>sm_conversationId = ''11111111-1111-1111-1111-111111111111'', sm_type = TypeText,
      sm_text = Some ''hi'', sm_imageUrl = None, sm_buttons = Some [], sm_cards = None\<rparr>
     = [(''type'', JSStr ''text''), (''text'', JSStr ''hi''), (''buttons'', JSArr [])]
   \<and> edit_message_schema (example_runtime None)
     [(''messageId'', JSStr ''11111111-1111-1111-1111-111111111111''), (''text'', JSStr ''hi'')]
     = Inr \<lparr>em_messageId = ''11111111-1111-1111-1111-111111111111'', em_type = TypeText,
            em_text = Some ''hi'', em_buttons = None\<rparr>
   \<and> edit_message_content
     \<lparr>em_messageId = ''11111111-1111-1111-1111-111111111111'', em_type = TypeText,
      em_text = Some ''hi'', em_buttons = None\<rparr>
     = [(''type'', JSStr ''text''), (''text'', JSStr ''hi'')]"
proof -
  let ?rt = "example_runtime None"
  have s: "send_message_schema ?rt
      [(''conversationId'', JSStr ''11111111-1111-1111-1111-111111111111''),
       (''text'', JSStr ''hi''), (''buttons'', JSArr [])]
    = Inr \<lparr>sm_conversationId = ''11111111-1111-1111-1111-111111111111'', sm_type = TypeText,
           sm_text = Some ''hi'', sm_imageUrl = None, sm_buttons = Some [], sm_cards = None\<rparr>"
    by (simp add: send_message_schema_def arg_def z_uuid_def z_string_def z_default_def
          z_message_type_def z_optional_def z_array_def and_then_def example_uuid_ones)
  have e: "edit_message_schema ?rt
      [(''messageId'', JSStr ''11111111-1111-1111-1111-111111111111''), (''text'', JSStr ''hi'')]
    = Inr \<lparr>em_messageId = ''11111111-1111-1111-1111-111111111111'', em_type = TypeText,
           em_text = Some ''hi'', em_buttons = None\<rparr>"
    by (simp add: edit_message_schema_def arg_def z_uuid_def z_string_def z_default_def
          z_message_type_def z_optional_def and_then_def example_uuid_ones)
  show ?thesis
    using message_content_fields [where rt = ?rt and cfg = example_config
            and raw = "[(''conversationId'', JSStr ''11111111-1111-1111-1111-111111111111''),
                        (''text'', JSStr ''hi''), (''buttons'', JSArr [])]"
            and sa = "\<lparr>sm_conversationId = ''11111111-1111-1111-1111-111111111111'',
                       sm_type = TypeText, sm_text = Some ''hi'', sm_imageUrl = None,
                       sm_buttons = Some [], sm_cards = None\<rparr>"]
          message_content_fields [where rt = ?rt and cfg = example_config
            and raw = "[(''messageId'', JSStr ''11111111-1111-1111-1111-111111111111''),
                        (''text'', JSStr ''hi'')]"
            and ea = "\<lparr>em_messageId = ''11111111-1111-1111-1111-111111111111'',
                       em_type = TypeText, em_text = Some ''hi'', em_buttons = None\<rparr>"]
    by (simp add: s e send_message_content_def edit_message_content_def opt_string_def
          opt_array_def)
qed

text \<open>
  C1, as stated, has \<^verbatim>\<open>imageUrl\<close> in the content of \<^verbatim>\<open>edit_message\<close> when the caller
  supplies a truthy one: the arguments pass the schema, which does not declare the
  key, and the content has \<^verbatim>\<open>type\<close> only.
\<close>

theorem edit_message_drops_imageUrl:
  "supplied_truthy
     (map_of [(''messageId'', JSStr ''11111111-1111-1111-1111-111111111111''),
              (''imageUrl'', JSStr ''https://a.b/c.png'')] ''imageUrl'')
   \<and> edit_message_schema (example_runtime None)
       [(''messageId'', JSStr ''11111111-1111-1111-1111-111111111111''),
        (''imageUrl'', JSStr ''https://a.b/c.png'')]
     = Inr \<lparr>em_messageId = ''11111111-1111-1111-1111-111111111111'', em_type = TypeText,
            em_text = None, em_buttons = None\<rparr>
   \<and> edit_message_content
       \<lparr>em_messageId = ''11111111-1111-1111-1111-111111111111'', em_type = TypeText,
        em_text = None, em_buttons = None\<rparr>
     = [(''type'', JSStr ''text'')]"
  by (simp add: supplied_truthy_def edit_message_schema_def arg_def z_uuid_def z_string_def
        z_default_def z_message_type_def z_optional_def and_then_def example_uuid_ones
        edit_message_content_def opt_string_def opt_array_def)

text \<open>
  C9. The query of the request of \<^verbatim>\<open>get_token_prices\<close> always has the parameter
  \<^verbatim>\<open>mints\<close>: it is \<^verbatim>\<open>all\<close> when the argument is omitted or the empty string, and the
  argument otherwise. (The tool sends that one request, or none when \<^verbatim>\<open>new URL\<close>
  throws.)
\<close>

theorem get_token_prices_mints:
  "map req_query (snd (get_token_prices rt cfg mints sent))
     = (if URL_valid rt (API_URL cfg @ ''/api/wallet/prices'')
        then [[(''mints'', case mints of None \<Rightarrow> ''all'' | Some m \<Rightarrow> if m = [] then ''all'' else m)]]
        else [])"
  by (simp add: get_token_prices_def single_call apiCall_request_def or_else_def
      split: option.splits)


section \<open>Schema bounds and defaults\<close>

lemma int_between_outside:
  "n < lo \<or> hi < n \<Longrightarrow> \<exists>issue. z_default d (int_between lo hi) (JSNum n) = Inl issue"
  by (auto simp add: z_default_def int_between_def z_number_def z_int_def z_min_def z_max_def
        and_then_def)

lemma limit_default:
  "20 \<le> hi \<Longrightarrow> z_default (JSNum 20) (int_between 1 hi) JSUndefined = Inr 20"
  by (simp add: z_default_def int_between_def z_number_def z_int_def z_min_def z_max_def
        and_then_def is_integer_def)

lemma server_tool_rejected:
  "schema raw = Inl issue \<Longrightarrow> rejected (server_tool schema handler raw) sent"
  by (simp add: rejected_def server_tool_def throw_io_def)

lemma list_conversations_rejects:
  assumes "arg raw ''limit'' = JSNum n" and "n < 1 \<or> 100 < n"
  shows "rejected (list_conversations_tool rt cfg raw) sent"
proof -
  obtain issue where "z_default (JSNum 20) (int_between 1 100) (JSNum n) = Inl issue"
    using int_between_outside [OF assms(2)] by blast
  with assms(1) have "list_conversations_schema raw = Inl issue"
    by (simp add: list_conversations_schema_def and_then_def)
  then show ?thesis
    unfolding list_conversations_tool_def by (rule server_tool_rejected)
qed

lemma list_conversations_default:
  assumes "arg raw ''limit'' = JSUndefined" and "list_conversations_schema raw = Inr la"
  shows "lc_limit la = 20 \<and> list_conversations_tool rt cfg raw = list_conversations rt cfg la"
proof -
  from assms have "lc_limit la = 20"
    by (auto simp add: list_conversations_schema_def limit_default and_then_def
        split: sum.splits)
  with assms(2) show ?thesis
    by (simp add: list_conversations_tool_def server_tool_def)
qed

lemma get_transaction_history_rejects:
  assumes "arg raw ''limit'' = JSNum n" and "n < 1 \<or> 50 < n"
  shows "rejected (get_transaction_history_tool rt cfg raw) sent"
proof -
  obtain issue where "z_default (JSNum 20) (int_between 1 50) (JSNum n) = Inl issue"
    using int_between_outside [OF assms(2)] by blast
  with assms(1) have "\<exists>issue'. get_transaction_history_schema raw = Inl issue'"
    by (cases "z_string (arg raw ''address'')")
       (simp_all add: get_transaction_history_schema_def and_then_def)
  then show ?thesis
    unfolding get_transaction_history_tool_def using server_tool_rejected by blast
qed

lemma get_transaction_history_default:
  assumes "arg raw ''limit'' = JSUndefined" and "get_transaction_history_schema raw = Inr ta"
  shows "th_limit ta = 20
    \<and> get_transaction_history_tool rt cfg raw = get_transaction_history rt cfg ta"
proof -
  from assms have "th_limit ta = 20"
    by (auto simp add: get_transaction_history_schema_def limit_default and_then_def
        split: sum.splits)
  with assms(2) show ?thesis
    by (simp add: get_transaction_history_tool_def server_tool_def)
qed

text \<open>
  C2, as amended. For \<^verbatim>\<open>list_conversations\<close> a \<^verbatim>\<open>limit\<close> outside \<open>[1,100]\<close> is rejected
  before the handler runs, and an omitted \<^verbatim>\<open>limit\<close> is 20 in the arguments the handler
  runs on. For \<^verbatim>\<open>get_transaction_history\<close> a \<^verbatim>\<open>limit\<close> outside \<open>[1,50]\<close> is rejected
  before the handler runs, and an omitted \<^verbatim>\<open>limit\<close> is 20 as well.
\<close>

theorem limit_bounds_and_defaults:
  "(arg raw ''limit'' = JSNum n \<and> (n < 1 \<or> 100 < n) \<longrightarrow>
      rejected (list_conversations_tool rt cfg raw) sent)
   \<and> (arg raw ''limit'' = JSUndefined \<and> list_conversations_schema raw = Inr la \<longrightarrow>
        lc_limit la = 20 \<and> list_conversations_tool rt cfg raw = list_conversations rt cfg la)
   \<and> (arg raw ''limit'' = JSNum n \<and> (n < 1 \<or> 50 < n) \<longrightarrow>
        rejected (get_transaction_history_tool rt cfg raw) sent)
   \<and> (arg raw ''limit'' = JSUndefined \<and> get_transaction_history_schema raw = Inr ta \<longrightarrow>
        th_limit ta = 20
        \<and> get_transaction_history_tool rt cfg raw = get_transaction_history rt cfg ta)"
  using list_conversations_rejects list_conversations_default
    get_transaction_history_rejects get_transaction_history_default
  by blast

text \<open>Limits of 101 and 51, and calls that leave the limit out.\<close>

theorem limit_bounds_and_defaults_witness:
  "rejected (list_conversations_tool (example_runtime None) example_config [(''limit'', JSNum 101)]) []
   \<and> list_conversations_tool (example_runtime None) example_config []
       = list_conversations (example_runtime None) example_config \<lparr>lc_limit = 20, lc_offset = 0\<rparr>
   \<and> rejected (get_transaction_history_tool (example_runtime None) example_config
         [(''address'', JSStr ''7xKXt''), (''limit'', JSNum 51)]) []
   \<and> get_transaction_history_tool (example_runtime None) example_config [(''address'', JSStr ''7xKXt'')]
       = get_transaction_history (example_runtime None) example_config
           \<lparr>th_address = ''7xKXt'', th_limit = 20, th_before = None\<rparr>"
proof -
  have lc: "list_conversations_schema [] = Inr \<lparr>lc_limit = 20, lc_offset = 0\<rparr>"
    by (simp add: list_conversations_schema_def arg_def z_default_def int_between_def int_from_def
          z_number_def z_int_def z_min_def z_max_def and_then_def is_integer_def)
  have th: "get_transaction_history_schema [(''address'', JSStr ''7xKXt'')]
     = Inr \<lparr>th_address = ''7xKXt'', th_limit = 20, th_before = None\<rparr>"
    by (simp add: get_transaction_history_schema_def arg_def z_string_def z_optional_def
          limit_default and_then_def)
  show ?thesis
    using limit_bounds_and_defaults [where raw = "[(''limit'', JSNum 101)]" and n = 101
            and rt = "example_runtime None" and cfg = example_config and sent = "[]"]
          limit_bounds_and_defaults [where raw = "[]" and la = "\<lparr>lc_limit = 20, lc_offset = 0\<rparr>"
            and rt = "example_runtime None" and cfg = example_config]
          limit_bounds_and_defaults [where raw = "[(''address'', JSStr ''7xKXt''), (''limit'', JSNum 51)]"
            and n = 51 and rt = "example_runtime None" and cfg = example_config and sent = "[]"]
          limit_bounds_and_defaults [where raw = "[(''address'', JSStr ''7xKXt'')]"
            and ta = "\<lparr>th_address = ''7xKXt'', th_limit = 20, th_before = None\<rparr>"
            and rt = "example_runtime None" and cfg = example_config]
    by (simp add: lc th arg_def)
qed

text \<open>
  C2, as stated, has 50 for the default of \<^verbatim>\<open>get_transaction_history\<close>: with the limit
  left out, the handler's arguments have 20, not 50.
\<close>

theorem transaction_history_default_is_20:
  "get_transaction_history_schema [(''address'', JSStr ''7xKXt'')]
     = Inr \<lparr>th_address = ''7xKXt'', th_limit = 20, th_before = None\<rparr>
   \<and> get_transaction_history_schema [(''address'', JSStr ''7xKXt'')]
     \<noteq> Inr \<lparr>th_address = ''7xKXt'', th_limit = 50, th_before = None\<rparr>"
  by (simp add: get_transaction_history_schema_def arg_def z_string_def z_optional_def
        limit_default and_then_def)

section \<open>The requests of every tool\<close>

lemma request_line_apiCall_request:
  "request_line (apiCall_request rt cfg m p b None) = (m, API_URL cfg @ p, [])"
  "distinct (map fst q) \<Longrightarrow>
     request_line (apiCall_request rt cfg m p b (Some q)) = (m, API_URL cfg @ p, non_empty q)"
  by (simp_all add: request_line_def apiCall_request_def query_loop_distinct)


lemma lookup_id_get_id:
  "lookup_id rt (Inr botInfo) =
     (case get_id botInfo of
        Inl e \<Rightarrow> None
      | Inr appId \<Rightarrow> if truthy appId then Some (ToString rt appId) else None)"
  by (cases botInfo) (simp_all add: lookup_id_def split: option.splits)

lemma lookup_id_error: "lookup_id rt (Inl e) = None"
  by (simp add: lookup_id_def)

lemma two_step_lines:
  "base_url_valid rt cfg \<Longrightarrow>
   map request_line (snd (await (apiCall rt cfg ''GET'' ''/api/bot/me'' JSUndefined None)
          (\<lambda>botInfo. case get_id botInfo of
               Inl e \<Rightarrow> throw_io e
             | Inr appId \<Rightarrow>
                 if \<not> truthy appId then return_io (early appId)
                 else await (apiCall rt cfg ''PUT'' ((CHR ''/'' # pre) @ ToString rt appId @ post)
                               (b' appId) None)
                        (\<lambda>result. return_io (f result))) sent))
   = (''GET'', API_URL cfg @ ''/api/bot/me'', [])
       # (case lookup_id rt (fst (apiCall rt cfg ''GET'' ''/api/bot/me'' JSUndefined None sent)) of
            None \<Rightarrow> []
          | Some appId \<Rightarrow> [(''PUT'', API_URL cfg @ (CHR ''/'' # pre) @ appId @ post, [])])"
  by (simp add: two_step_requests [where p' = "\<lambda>appId. (CHR ''/'' # pre) @ ToString rt appId @ post"]
        request_line_apiCall_request lookup_id_get_id lookup_id_error split: sum.splits)






section \<open>The two tools that look the application identifier up\<close>

text \<open>
  The envelope of the error object, and the two outcomes of the lookup for a result
  that is not \<^verbatim>\<open>null\<close>: without a truthy \<^verbatim>\<open>id\<close> the tool returns that envelope after
  the one \<^verbatim>\<open>GET\<close>; with one it sends the \<^verbatim>\<open>PUT\<close> addressed by the identifier.
\<close>

lemma ok_error_text:
  "ok rt (JSObj [(''error'', JSStr msg)])
     = \<lparr>content = [\<lparr>block_type = ''text'',
          block_text = Some (''{\<newline>  \"error\": '' @ QuoteJSONString msg @ ''\<newline>}'')\<rparr>]\<rparr>"
  by (simp add: ok_def JSON_stringify_def json_wrap_def QuoteJSONString_def quote_char_def)

lemma get_id_absent:
  "id_absent_or_falsy botInfo \<Longrightarrow> botInfo \<noteq> JSNull \<Longrightarrow> botInfo \<noteq> JSUndefined \<Longrightarrow>
     \<exists>appId. get_id botInfo = Inr appId \<and> \<not> truthy appId"
  by (cases botInfo) (auto simp add: id_absent_or_falsy_def split: option.splits)

lemma get_id_present:
  "\<not> id_absent_or_falsy botInfo \<Longrightarrow> \<exists>appId. get_id botInfo = Inr appId \<and> truthy appId"
  by (cases botInfo) (auto simp add: id_absent_or_falsy_def split: option.splits)

lemma set_webhook_soft_failure:
  assumes "fst (apiCall rt cfg ''GET'' ''/api/bot/me'' JSUndefined None sent) = Inr botInfo"
    and "id_absent_or_falsy botInfo" and "botInfo \<noteq> JSNull" and "botInfo \<noteq> JSUndefined"
  shows "set_webhook rt cfg a sent
     = (Inr (ok rt (JSObj [(''error'', JSStr ''Could not determine app ID. Check your bot token.'')])),
        [apiCall_request rt cfg ''GET'' ''/api/bot/me'' JSUndefined None])"
proof -
  obtain appId where "get_id botInfo = Inr appId" and "\<not> truthy appId"
    using get_id_absent [OF assms(2-4)] by blast
  with assms(1) apiCall_Inr [OF assms(1)] show ?thesis
    by (simp add: set_webhook_def await_apiCall return_io_def)
qed

lemma set_welcome_message_soft_failure:
  assumes "fst (apiCall rt cfg ''GET'' ''/api/bot/me'' JSUndefined None sent) = Inr botInfo"
    and "id_absent_or_falsy botInfo" and "botInfo \<noteq> JSNull" and "botInfo \<noteq> JSUndefined"
  shows "set_welcome_message rt cfg a sent
     = (Inr (ok rt (JSObj [(''error'', JSStr ''Could not determine app ID.'')])),
        [apiCall_request rt cfg ''GET'' ''/api/bot/me'' JSUndefined None])"
proof -
  obtain appId where "get_id botInfo = Inr appId" and "\<not> truthy appId"
    using get_id_absent [OF assms(2-4)] by blast
  with assms(1) apiCall_Inr [OF assms(1)] show ?thesis
    by (simp add: set_welcome_message_def await_apiCall return_io_def)
qed

lemma two_step_put:
  assumes "base_url_valid rt cfg"
    and "fst (apiCall rt cfg ''GET'' ''/api/bot/me'' JSUndefined None sent) = Inr botInfo"
    and "\<not> id_absent_or_falsy botInfo"
  shows "\<exists>appId. get_id botInfo = Inr appId \<and> truthy appId
     \<and> map request_line (snd (set_webhook rt cfg wa sent))
         = [(''GET'', API_URL cfg @ ''/api/bot/me'', []),
            (''PUT'', API_URL cfg @ ''/api/developer/apps/'' @ ToString rt appId @ ''/webhook'', [])]
     \<and> map request_line (snd (set_welcome_message rt cfg ma sent))
         = [(''GET'', API_URL cfg @ ''/api/bot/me'', []),
            (''PUT'', API_URL cfg @ ''/api/developer/apps/'' @ ToString rt appId @ ''/welcome-message'',
             [])]"
proof -
  obtain appId where "get_id botInfo = Inr appId" and "truthy appId"
    using get_id_present [OF assms(3)] by blast
  with assms(1,2) show ?thesis
    by (simp add: set_webhook_def set_welcome_message_def two_step_lines lookup_id_get_id)
qed

text \<open>
  C3 at a lookup that answers \<^verbatim>\<open>null\<close>: the value has no \<^verbatim>\<open>id\<close>, and reading the
  property throws. Both tools end with the TypeError, not with the envelope of the
  error object, after the one \<^verbatim>\<open>GET\<close>.
\<close>

theorem identity_lookup_null:
  "id_absent_or_falsy JSNull
   \<and> set_webhook (example_runtime (Some \<lparr>res_status = 200, res_text = ''null''\<rparr>)) example_config
       \<lparr>wh_url = ''https://a.b/hook'', wh_events = None\<rparr> []
     = (Inl TypeError,
        [apiCall_request (example_runtime (Some \<lparr>res_status = 200, res_text = ''null''\<rparr>))
           example_config ''GET'' ''/api/bot/me'' JSUndefined None])
   \<and> set_welcome_message (example_runtime (Some \<lparr>res_status = 200, res_text = ''null''\<rparr>))
       example_config \<lparr>wm_text = ''Welcome'', wm_buttons = None\<rparr> []
     = (Inl TypeError,
        [apiCall_request (example_runtime (Some \<lparr>res_status = 200, res_text = ''null''\<rparr>))
           example_config ''GET'' ''/api/bot/me'' JSUndefined None])"
proof -
  have "fst (apiCall (example_runtime (Some \<lparr>res_status = 200, res_text = ''null''\<rparr>)) example_config
          ''GET'' ''/api/bot/me'' JSUndefined None []) = Inr JSNull"
    by (simp add: apiCall_def example_parse_def)
  then show ?thesis
    by (simp add: id_absent_or_falsy_def set_webhook_def set_welcome_message_def await_apiCall
          throw_io_def)
qed

section \<open>The body of the webhook request\<close>







section \<open>The envelope\<close>

text \<open>An envelope has one content block, of type \<^verbatim>\<open>text\<close>; its text is there for every
  value but \<^verbatim>\<open>undefined\<close>.\<close>

lemma ok_one_text_block:
  "length (content (ok rt data)) = 1 \<and> map block_type (content (ok rt data)) = [''text'']"
  by (simp add: ok_def)

lemma ok_text_defined:
  "data \<noteq> JSUndefined \<Longrightarrow> \<exists>t. map block_text (content (ok rt data)) = [Some t]"
  by (cases data) (simp_all add: ok_def JSON_stringify_def)

end
